theory Spec2Isabelle
  imports Complex_Main "HOL-Library.Multiset"
begin

section \<open>The Animation event scheduler of vedo/applications.py\<close>

text \<open>
  A shallow embedding of class \<open>Animation\<close> (src/vedo/applications.py, lines 2520-2919):
  the booking methods, \<open>_parse\<close> and \<open>play\<close>. Python floats are modelled as exact reals
  (no rounding error, no NaN or infinity); every raise of the source is a value of
  type \<open>error\<close>, returned together with the state as it was when the exception left the
  method (attributes assigned before a raise stay assigned).
\<close>

subsection \<open>Scene objects and the store\<close>

type_synonym obj_ref = nat
type_synonym rgb = "real \<times> real \<times> real"
type_synonym vec3 = "real \<times> real \<times> real"

datatype error =
  RuntimeError | ZeroDivisionError | ValueError | IndexError
  | UnboundLocalError | AttributeError | TypeError

text \<open>
  The scene objects belong to the rendering library. The scheduler only calls their
  property getters and setters, so an object is the record of what those calls read and
  write. \<open>has_alpha\<close> is what \<open>hasattr(a, "alpha")\<close> answers; \<open>backColor\<close> is \<open>None\<close>
  when \<open>GetBackfaceProperty()\<close> is falsy; \<open>rotations\<close> and \<open>scales\<close> list the
  \<open>rotate_x/y/z\<close> and \<open>scale\<close> calls the object has received, oldest first. The last
  five fields are the geometry queries of \<open>mesh_erode\<close>: \<open>corner_dist c\<close> is
  \<open>norm(closest_point(c) - c)\<close> and \<open>ids_within c d\<close> is
  \<open>closest_point(c, radius=d, return_point_id=True)\<close>.
\<close>

record vobject =
  has_alpha :: bool
  alpha :: real
  color :: rgb
  backColor :: "rgb option"
  wireframe :: bool
  lw :: real
  linecolor :: rgb
  ambient :: real
  diffuse :: real
  specular :: real
  specular_power :: real
  pos :: vec3
  rotations :: "(char \<times> real) list"
  scales :: "real list"
  diagonal_size :: real
  bounds :: "real \<times> real \<times> real \<times> real \<times> real \<times> real"
  corner_dist :: "vec3 \<Rightarrow> real"
  ids_within :: "vec3 \<Rightarrow> real \<Rightarrow> nat list"
  npoints :: nat

type_synonym store = "obj_ref \<Rightarrow> vobject"

subsection \<open>Events\<close>

text \<open>The bound method stored in an Event, by name.\<close>

datatype action =
  Fade_in | Fade_out | Change_alpha_between | Change_color | Change_backcolor
  | Change_to_wireframe | Change_to_surface | Change_line_width | Change_line_color
  | Change_lighting | Move | Rotate | Scale | Mesh_erode

text \<open>The \<open>axis\<close> argument of \<open>rotate\<close>: a string, or a tuple such as the default \<open>(1, 0, 0)\<close>.\<close>

datatype axis = AxisStr string | AxisVec real real real

text \<open>The fourth component of an Event, by the shape each booking method stores.\<close>

datatype payload =
  PNum real
  | PBool bool
  | PColors "rgb list"
  | PBackColors "rgb option list"
  | PNums "real list"
  | PLight "(real \<times> real \<times> real \<times> real) list"
  | PVec vec3
  | PRot axis real
  | PIds "nat list"

type_synonym event = "real \<times> action \<times> obj_ref list \<times> payload"

datatype vop = AddFrame | Pause real

record video =
  v_name :: string
  v_fps :: int
  v_duration :: real
  v_ops :: "vop list"
  v_closed :: bool

subsection \<open>Scheduler state\<close>

text \<open>
  The attributes of \<open>__init__\<close>, then what the methods do to the outside: \<open>objects\<close> is
  the Plotter's object list, \<open>store\<close> the scene objects by reference, \<open>logged\<close> the messages
  given to \<open>vedo.logger.error\<close>, \<open>show_calls\<close> the \<open>interactive\<close> flag of every \<open>self.show\<close>
  call, \<open>vd\<close> the Video object of \<open>play\<close> and \<open>progress\<close> the \<open>pb.print\<close> calls.
  A falsy \<open>video_filename\<close> is the empty string.
\<close>

record anim =
  events :: "event list"
  time_resolution :: real
  total_duration :: "real option"
  show_progressbar :: bool
  video_filename :: string
  video_fps :: int
  bookingMode :: bool
  inputvalues :: payload
  performers :: "obj_ref list"
  lastT :: "real option"
  lastDuration :: "real option"
  lastActs :: "obj_ref list option"
  eps :: real
  objects :: "obj_ref list"
  store :: store
  logged :: "string list"
  show_calls :: "bool list"
  vd :: "video option"
  progress :: "(real \<times> action) list"

definition init :: "real option \<Rightarrow> real \<Rightarrow> bool \<Rightarrow> string \<Rightarrow> int \<Rightarrow> store \<Rightarrow> anim" where
  "init total_dur time_res show_pb filename fps st =
     \<lparr> events = [], time_resolution = time_res, total_duration = total_dur,
       show_progressbar = show_pb, video_filename = filename, video_fps = fps,
       bookingMode = True, inputvalues = PNums [], performers = [],
       lastT = None, lastDuration = None, lastActs = None, eps = 1 / 100000,
       objects = [], store = st, logged = [], show_calls = [], vd = None, progress = [] \<rparr>"

subsection \<open>Library functions the scheduler calls\<close>

text \<open>Python's \<open>int(x)\<close> on a float truncates toward zero.\<close>

definition int_of_float :: "real \<Rightarrow> int" where
  "int_of_float x = (if 0 \<le> x then \<lfloor>x\<rfloor> else \<lceil>x\<rceil>)"

text \<open>
  \<open>numpy.linspace(start, stop, num)\<close>: a negative \<open>num\<close> raises ValueError, \<open>num = 0\<close> gives
  the empty array, \<open>num = 1\<close> gives \<open>[start]\<close>, and otherwise \<open>num\<close> points with step
  \<open>(stop - start) / (num - 1)\<close>, the last one being \<open>stop\<close>.
\<close>

definition linspace :: "real \<Rightarrow> real \<Rightarrow> int \<Rightarrow> error + real list" where
  "linspace start stop num =
     (if num < 0 then Inl ValueError
      else if num = 1 then Inr [start]
      else Inr (map (\<lambda>i. start + real i * ((stop - start) / real_of_int (num - 1)))
                  [0..<nat num]))"

text \<open>
  Modelled from the spec: \<open>lin_interpolate\<close> of vedo.utils is imported by
  applications.py but is not among the source files. Section 4.1 of the spec: each payload
  is computed "via linear interpolation between the transition's start-value and
  end-value". For a range of zero width, on which the spec is silent, the start-value is
  taken.
\<close>

definition lin_interpolate :: "real \<Rightarrow> real \<times> real \<Rightarrow> real \<times> real \<Rightarrow> real" where
  "lin_interpolate x rangeX rangeY =
     (let x0 = fst rangeX; dx = snd rangeX - x0
      in if dx = 0 then fst rangeY
         else (let s = (x - x0) / dx in fst rangeY * (1 - s) + snd rangeY * s))"

subsection \<open>\<open>_parse\<close>\<close>

text \<open>
  The \<open>objs\<close> argument: \<open>None\<close>, one object (for which \<open>is_sequence\<close> is false) or a
  sequence of objects.
\<close>

datatype targets = NoObjs | OneObj obj_ref | ObjList "obj_ref list"

text \<open>\<open>for a in objs2: if a not in self.objects: self.objects.append(a)\<close>\<close>

fun add_objects :: "obj_ref list \<Rightarrow> obj_ref list \<Rightarrow> obj_ref list" where
  "add_objects objs [] = objs"
| "add_objects objs (a # as) =
     add_objects (if a \<in> set objs then objs else objs @ [a]) as"

text \<open>
  \<open>if self._lastT:\<close> is false for \<open>None\<close> and for \<open>0.0\<close>; \<open>if self._lastActs:\<close> is
  false for \<open>None\<close> and for the empty list.
\<close>

definition default_float :: "real option \<Rightarrow> real option \<Rightarrow> real" where
  "default_float given prev =
     (case given of
        Some v \<Rightarrow> v
      | None \<Rightarrow> (case prev of Some l \<Rightarrow> (if l \<noteq> 0 then l else 0) | None \<Rightarrow> 0))"

definition resolve_objs :: "targets \<Rightarrow> obj_ref list option \<Rightarrow> obj_ref list option" where
  "resolve_objs objs prev =
     (case objs of
        OneObj a \<Rightarrow> Some [a]
      | ObjList as \<Rightarrow> Some as
      | NoObjs \<Rightarrow> (case prev of Some (a # as) \<Rightarrow> Some (a # as) | _ \<Rightarrow> None))"

definition parse ::
  "anim \<Rightarrow> targets \<Rightarrow> real option \<Rightarrow> real option
     \<Rightarrow> (error + (obj_ref list \<times> real \<times> real \<times> real list)) \<times> anim" where
  "parse s objs t duration =
     (let t1 = default_float t (lastT s);
          duration1 = default_float duration (lastDuration s)
      in case resolve_objs objs (lastActs s) of
           None \<Rightarrow> (Inl RuntimeError, s\<lparr>logged := logged s @ [''Need to specify actors!'']\<rparr>)
         | Some objs2 \<Rightarrow>
             if time_resolution s = 0 then (Inl ZeroDivisionError, s)
             else
               (let t2 = real_of_int (int_of_float (t1 / time_resolution s + 1 / 2))
                           * time_resolution s;
                    nsteps = int_of_float (duration1 / time_resolution s + 1 / 2);
                    duration2 = real_of_int nsteps * time_resolution s
                in case linspace t2 (t2 + duration2) (nsteps + 1) of
                     Inl e \<Rightarrow> (Inl e, s)
                   | Inr rng \<Rightarrow>
                       (Inr (objs2, t2, duration2, rng),
                        s\<lparr>lastT := Some t2, lastDuration := Some duration2,
                          lastActs := Some objs2,
                          objects := add_objects (objects s) objs2\<rparr>)))"

subsection \<open>Alpha transitions\<close>

text \<open>
  Every method returns \<open>self\<close>; the model returns the state, with \<open>None\<close> for a normal
  return and \<open>Some e\<close> when \<open>e\<close> was raised. Each method has a booking branch and a
  playback branch, chosen by \<open>bookingMode\<close>; the playback branch reads
  \<open>self._performers\<close> and \<open>self._inputvalues\<close> and none of the arguments. The booking
  methods store one payload shape per action; a playback branch that meets another
  shape returns TypeError.
\<close>

type_synonym outcome = "error option \<times> anim"

definition book ::
  "anim \<Rightarrow> targets \<Rightarrow> real option \<Rightarrow> real option
     \<Rightarrow> (obj_ref list \<Rightarrow> real \<Rightarrow> real \<Rightarrow> real list \<Rightarrow> anim \<Rightarrow> outcome) \<Rightarrow> outcome" where
  "book s acts t duration body =
     (case parse s acts t duration of
        (Inl e, s1) \<Rightarrow> (Some e, s1)
      | (Inr (acts1, t1, duration1, rng), s1) \<Rightarrow> body acts1 t1 duration1 rng s1)"

definition append_events :: "anim \<Rightarrow> event list \<Rightarrow> anim" where
  "append_events s es = s\<lparr>events := events s @ es\<rparr>"

text \<open>
  \<open>for a in self._performers: if hasattr(a, "alpha"): if a.alpha() >= v: continue;
  a.alpha(v)\<close>
\<close>

fun fade_in_loop :: "real \<Rightarrow> obj_ref list \<Rightarrow> store \<Rightarrow> store" where
  "fade_in_loop v [] st = st"
| "fade_in_loop v (a # as) st =
     fade_in_loop v as
       (if has_alpha (st a)
        then (if alpha (st a) \<ge> v then st else st(a := (st a)\<lparr>alpha := v\<rparr>))
        else st)"

text \<open>
  \<open>for a in self._performers: if a.alpha() <= v: continue; a.alpha(v)\<close>, where
  \<open>a.alpha()\<close> raises AttributeError on an object without that attribute.
\<close>

fun fade_out_loop :: "real \<Rightarrow> obj_ref list \<Rightarrow> store \<Rightarrow> error option \<times> store" where
  "fade_out_loop v [] st = (None, st)"
| "fade_out_loop v (a # as) st =
     (if \<not> has_alpha (st a) then (Some AttributeError, st)
      else fade_out_loop v as
             (if alpha (st a) \<le> v then st else st(a := (st a)\<lparr>alpha := v\<rparr>)))"

text \<open>\<open>for a in self._performers: a.alpha(v)\<close>\<close>

fun set_alpha_loop :: "real \<Rightarrow> obj_ref list \<Rightarrow> store \<Rightarrow> error option \<times> store" where
  "set_alpha_loop v [] st = (None, st)"
| "set_alpha_loop v (a # as) st =
     (if \<not> has_alpha (st a) then (Some AttributeError, st)
      else set_alpha_loop v as (st(a := (st a)\<lparr>alpha := v\<rparr>)))"

definition with_store :: "anim \<Rightarrow> error option \<times> store \<Rightarrow> outcome" where
  "with_store s r = (fst r, s\<lparr>store := snd r\<rparr>)"

definition fade_in_playback :: "anim \<Rightarrow> outcome" where
  "fade_in_playback s =
     (case inputvalues s of
        PNum v \<Rightarrow> (None, s\<lparr>store := fade_in_loop v (performers s) (store s)\<rparr>)
      | _ \<Rightarrow> (Some TypeError, s))"

definition fade_in :: "anim \<Rightarrow> targets \<Rightarrow> real option \<Rightarrow> real option \<Rightarrow> outcome" where
  "fade_in s acts t duration =
     (if bookingMode s then
        book s acts t duration (\<lambda>acts1 t1 duration1 rng s1.
          (None, append_events s1
             (map (\<lambda>tt. (tt, Fade_in, acts1,
                         PNum (lin_interpolate tt (t1, t1 + duration1) (0, 1)))) rng)))
      else fade_in_playback s)"

definition fade_out_playback :: "anim \<Rightarrow> outcome" where
  "fade_out_playback s =
     (case inputvalues s of
        PNum v \<Rightarrow> with_store s (fade_out_loop v (performers s) (store s))
      | _ \<Rightarrow> (Some TypeError, s))"

definition fade_out :: "anim \<Rightarrow> targets \<Rightarrow> real option \<Rightarrow> real option \<Rightarrow> outcome" where
  "fade_out s acts t duration =
     (if bookingMode s then
        book s acts t duration (\<lambda>acts1 t1 duration1 rng s1.
          (None, append_events s1
             (map (\<lambda>tt. (tt, Fade_out, acts1,
                         PNum (lin_interpolate tt (t1, t1 + duration1) (1, 0)))) rng)))
      else fade_out_playback s)"

definition switch_on :: "anim \<Rightarrow> targets \<Rightarrow> real option \<Rightarrow> outcome" where
  "switch_on s acts t = fade_in s acts t (Some 0)"

definition switch_off :: "anim \<Rightarrow> targets \<Rightarrow> real option \<Rightarrow> outcome" where
  "switch_off s acts t = fade_out s acts t (Some 0)"

definition change_alpha_between_playback :: "anim \<Rightarrow> outcome" where
  "change_alpha_between_playback s =
     (case inputvalues s of
        PNum v \<Rightarrow> with_store s (set_alpha_loop v (performers s) (store s))
      | _ \<Rightarrow> (Some TypeError, s))"

text \<open>The Events of \<open>change_alpha_between\<close> carry \<open>self.fade_out\<close>, as in the source.\<close>

definition change_alpha_between ::
  "anim \<Rightarrow> real \<Rightarrow> real \<Rightarrow> targets \<Rightarrow> real option \<Rightarrow> real option \<Rightarrow> outcome" where
  "change_alpha_between s alpha1 alpha2 acts t duration =
     (if bookingMode s then
        book s acts t duration (\<lambda>acts1 t1 duration1 rng s1.
          (None, append_events s1
             (map (\<lambda>tt. (tt, Fade_out, acts1,
                         PNum (lin_interpolate tt (t1, t1 + duration1) (alpha1, alpha2)))) rng)))
      else change_alpha_between_playback s)"

subsection \<open>Colour, representation, line and lighting transitions\<close>

text \<open>\<open>for i, a in enumerate(self._performers): a.setter(self._inputvalues[i])\<close>\<close>

fun set_each ::
  "(vobject \<Rightarrow> 'v \<Rightarrow> vobject) \<Rightarrow> obj_ref list \<Rightarrow> 'v list \<Rightarrow> store \<Rightarrow> error option \<times> store" where
  "set_each f [] vs st = (None, st)"
| "set_each f (a # as) [] st = (Some IndexError, st)"
| "set_each f (a # as) (v # vs) st = set_each f as vs (st(a := f (st a) v))"

text \<open>\<open>for a in self._performers: a.setter(self._inputvalues)\<close>\<close>

fun set_all :: "(vobject \<Rightarrow> vobject) \<Rightarrow> obj_ref list \<Rightarrow> store \<Rightarrow> store" where
  "set_all f [] st = st"
| "set_all f (a # as) st = set_all f as (st(a := f (st a)))"

definition interp_rgb :: "real \<Rightarrow> real \<Rightarrow> real \<Rightarrow> rgb \<Rightarrow> rgb \<Rightarrow> rgb" where
  "interp_rgb tt t duration col1 col2 =
     (case col1 of (r1, g1, b1) \<Rightarrow> case col2 of (r2, g2, b2) \<Rightarrow>
        (lin_interpolate tt (t, t + duration) (r1, r2),
         lin_interpolate tt (t, t + duration) (g1, g2),
         lin_interpolate tt (t, t + duration) (b1, b2)))"

definition change_color_playback :: "anim \<Rightarrow> outcome" where
  "change_color_playback s =
     (case inputvalues s of
        PColors cs \<Rightarrow>
          with_store s (set_each (\<lambda>obj c. obj\<lparr>color := c\<rparr>) (performers s) cs (store s))
      | _ \<Rightarrow> (Some TypeError, s))"

text \<open>
  The colour argument \<open>c\<close> is taken as the triple \<open>get_color(c)\<close> (vedo.colors, outside
  this scheduler).
\<close>

definition change_color :: "anim \<Rightarrow> rgb \<Rightarrow> targets \<Rightarrow> real option \<Rightarrow> real option \<Rightarrow> outcome" where
  "change_color s col2 acts t duration =
     (if bookingMode s then
        book s acts t duration (\<lambda>acts1 t1 duration1 rng s1.
          (None, append_events s1
             (map (\<lambda>tt. (tt, Change_color, acts1,
                         PColors (map (\<lambda>a. interp_rgb tt t1 duration1 (color (store s1 a)) col2)
                                    acts1))) rng)))
      else change_color_playback s)"

text \<open>\<open>a.backColor(None)\<close> is the getter: it changes nothing.\<close>

definition change_backcolor_playback :: "anim \<Rightarrow> outcome" where
  "change_backcolor_playback s =
     (case inputvalues s of
        PBackColors cs \<Rightarrow>
          with_store s
            (set_each (\<lambda>obj c. case c of None \<Rightarrow> obj | Some v \<Rightarrow> obj\<lparr>backColor := Some v\<rparr>)
               (performers s) cs (store s))
      | _ \<Rightarrow> (Some TypeError, s))"

definition change_backcolor ::
  "anim \<Rightarrow> rgb \<Rightarrow> targets \<Rightarrow> real option \<Rightarrow> real option \<Rightarrow> outcome" where
  "change_backcolor s col2 acts t duration =
     (if bookingMode s then
        book s acts t duration (\<lambda>acts1 t1 duration1 rng s1.
          (None, append_events s1
             (map (\<lambda>tt. (tt, Change_backcolor, acts1,
                         PBackColors
                           (map (\<lambda>a. case backColor (store s1 a) of
                                        Some col1 \<Rightarrow> Some (interp_rgb tt t1 duration1 col1 col2)
                                      | None \<Rightarrow> None) acts1))) rng)))
      else change_backcolor_playback s)"

definition wireframe_playback :: "anim \<Rightarrow> outcome" where
  "wireframe_playback s =
     (case inputvalues s of
        PBool b \<Rightarrow>
          (None, s\<lparr>store := set_all (\<lambda>obj. obj\<lparr>wireframe := b\<rparr>) (performers s) (store s)\<rparr>)
      | _ \<Rightarrow> (Some TypeError, s))"



definition change_line_width_playback :: "anim \<Rightarrow> outcome" where
  "change_line_width_playback s =
     (case inputvalues s of
        PNums ws \<Rightarrow>
          with_store s (set_each (\<lambda>obj w. obj\<lparr>lw := w\<rparr>) (performers s) ws (store s))
      | _ \<Rightarrow> (Some TypeError, s))"

definition change_line_width ::
  "anim \<Rightarrow> real \<Rightarrow> targets \<Rightarrow> real option \<Rightarrow> real option \<Rightarrow> outcome" where
  "change_line_width s lw2 acts t duration =
     (if bookingMode s then
        book s acts t duration (\<lambda>acts1 t1 duration1 rng s1.
          (None, append_events s1
             (map (\<lambda>tt. (tt, Change_line_width, acts1,
                         PNums (map (\<lambda>a. lin_interpolate tt (t1, t1 + duration1)
                                            (lw (store s1 a), lw2)) acts1))) rng)))
      else change_line_width_playback s)"

definition change_line_color_playback :: "anim \<Rightarrow> outcome" where
  "change_line_color_playback s =
     (case inputvalues s of
        PColors cs \<Rightarrow>
          with_store s (set_each (\<lambda>obj c. obj\<lparr>linecolor := c\<rparr>) (performers s) cs (store s))
      | _ \<Rightarrow> (Some TypeError, s))"

definition change_line_color ::
  "anim \<Rightarrow> rgb \<Rightarrow> targets \<Rightarrow> real option \<Rightarrow> real option \<Rightarrow> outcome" where
  "change_line_color s col2 acts t duration =
     (if bookingMode s then
        book s acts t duration (\<lambda>acts1 t1 duration1 rng s1.
          (None, append_events s1
             (map (\<lambda>tt. (tt, Change_line_color, acts1,
                         PColors (map (\<lambda>a. interp_rgb tt t1 duration1 (linecolor (store s1 a)) col2)
                                    acts1))) rng)))
      else change_line_color_playback s)"

text \<open>
  The \<open>if/elif\<close> chain of \<open>change_lighting\<close>: the first four entries of \<open>pars\<close> for the
  five allowed styles; for any other style \<open>pars\<close> is never assigned.
\<close>

definition lighting_pars :: "string \<Rightarrow> (real \<times> real \<times> real \<times> real) option" where
  "lighting_pars style =
     (if style = ''metallic'' then Some (1 / 10, 3 / 10, 1, 10)
      else if style = ''plastic'' then Some (3 / 10, 4 / 10, 3 / 10, 5)
      else if style = ''shiny'' then Some (2 / 10, 6 / 10, 8 / 10, 50)
      else if style = ''glossy'' then Some (1 / 10, 7 / 10, 9 / 10, 90)
      else if style = ''default'' then Some (1 / 10, 1, 5 / 100, 5)
      else None)"

definition interp_light ::
  "real \<Rightarrow> real \<Rightarrow> real \<Rightarrow> vobject \<Rightarrow> real \<times> real \<times> real \<times> real
     \<Rightarrow> real \<times> real \<times> real \<times> real" where
  "interp_light tt t duration obj pars =
     (case pars of (p0, p1, p2, p3) \<Rightarrow>
        (lin_interpolate tt (t, t + duration) (ambient obj, p0),
         lin_interpolate tt (t, t + duration) (diffuse obj, p1),
         lin_interpolate tt (t, t + duration) (specular obj, p2),
         lin_interpolate tt (t, t + duration) (specular_power obj, p3)))"

definition change_lighting_playback :: "anim \<Rightarrow> outcome" where
  "change_lighting_playback s =
     (case inputvalues s of
        PLight vs \<Rightarrow>
          with_store s
            (set_each (\<lambda>obj v. case v of (v0, v1, v2, v3) \<Rightarrow>
                         obj\<lparr>ambient := v0, diffuse := v1, specular := v2, specular_power := v3\<rparr>)
               (performers s) vs (store s))
      | _ \<Rightarrow> (Some TypeError, s))"

text \<open>
  With an unknown style the error is logged and the loops start with \<open>pars\<close> unbound:
  the first evaluation of \<open>pars[0]\<close>, on the first sample and the first target, raises
  UnboundLocalError before any Event is appended. With no sample or no target
  \<open>pars\<close> is never read.
\<close>

definition change_lighting ::
  "anim \<Rightarrow> string \<Rightarrow> targets \<Rightarrow> real option \<Rightarrow> real option \<Rightarrow> outcome" where
  "change_lighting s style acts t duration =
     (if bookingMode s then
        book s acts t duration (\<lambda>acts1 t1 duration1 rng s1.
          (case lighting_pars style of
             Some pars \<Rightarrow>
               (None, append_events s1
                  (map (\<lambda>tt. (tt, Change_lighting, acts1,
                              PLight (map (\<lambda>a. interp_light tt t1 duration1 (store s1 a) pars)
                                        acts1))) rng))
           | None \<Rightarrow>
               (let s2 = s1\<lparr>logged := logged s1 @ [''Unknown lighting style '' @ style]\<rparr>
                in if rng \<noteq> [] \<and> acts1 \<noteq> [] then (Some UnboundLocalError, s2)
                   else (None, append_events s2
                           (map (\<lambda>tt. (tt, Change_lighting, acts1, PLight [])) rng)))))
      else change_lighting_playback s)"

subsection \<open>Single-object transitions\<close>

definition vsub :: "vec3 \<Rightarrow> vec3 \<Rightarrow> vec3" where
  "vsub p q = (case p of (a, b, c) \<Rightarrow> case q of (x, y, z) \<Rightarrow> (a - x, b - y, c - z))"

definition vadd :: "vec3 \<Rightarrow> vec3 \<Rightarrow> vec3" where
  "vadd p q = (case p of (a, b, c) \<Rightarrow> case q of (x, y, z) \<Rightarrow> (a + x, b + y, c + z))"

definition vscale :: "vec3 \<Rightarrow> real \<Rightarrow> vec3" where
  "vscale p k = (case p of (a, b, c) \<Rightarrow> (a * k, b * k, c * k))"

text \<open>\<open>sub in s\<close> on Python strings.\<close>

fun contains :: "string \<Rightarrow> string \<Rightarrow> bool" where
  "contains sub [] = (sub = [])"
| "contains sub (c # cs) = (take (length sub) (c # cs) = sub \<or> contains sub cs)"

definition log_unless_single :: "anim \<Rightarrow> obj_ref list \<Rightarrow> string \<Rightarrow> anim" where
  "log_unless_single s acts msg =
     (if length acts \<noteq> 1 then s\<lparr>logged := logged s @ [msg]\<rparr> else s)"

definition move_playback :: "anim \<Rightarrow> outcome" where
  "move_playback s =
     (case performers s of
        [] \<Rightarrow> (Some IndexError, s)
      | a # _ \<Rightarrow>
          (case inputvalues s of
             PVec p \<Rightarrow> (None, s\<lparr>store := (store s)(a := (store s a)\<lparr>pos := p\<rparr>)\<rparr>)
           | _ \<Rightarrow> (Some TypeError, s)))"

text \<open>
  \<open>dv = (pt - cpos) / len(rng)\<close> is a numpy division, which does not raise; \<open>dv\<close> is read
  only inside the loop over \<open>rng\<close>, where \<open>len(rng)\<close> is positive.
\<close>

definition move ::
  "anim \<Rightarrow> targets \<Rightarrow> vec3 \<Rightarrow> real option \<Rightarrow> real option \<Rightarrow> string \<Rightarrow> outcome" where
  "move s act pt t duration style =
     (if bookingMode s then
        book s act t duration (\<lambda>acts t1 duration1 rng s1.
          (let s2 = log_unless_single s1 acts ''in move(), can move only one object.''
           in case acts of
                [] \<Rightarrow> (Some IndexError, s2)
              | a # _ \<Rightarrow>
                  (let cpos = pos (store s2 a);
                       dv = vscale (vsub pt cpos) (1 / real (length rng))
                   in (None, append_events s2
                         (map (\<lambda>j. let i = real (j + 1) in
                                 if contains ''quad'' style then
                                   (let x = i / real (length rng); y = x * x
                                    in (rng ! j, Move, acts, PVec (vadd cpos (vscale dv (i * y)))))
                                 else (rng ! j, Move, acts, PVec (vadd cpos (vscale dv i))))
                            [0..<length rng])))))
      else move_playback s)"

text \<open>
  The playback branch compares the stored axis with the strings \<open>"x"\<close>, \<open>"y"\<close>, \<open>"z"\<close>;
  there is no \<open>else\<close>. \<open>self._performers[0]\<close> is evaluated only in a branch taken.
\<close>

definition rotate_first :: "anim \<Rightarrow> char \<Rightarrow> real \<Rightarrow> outcome" where
  "rotate_first s c ang =
     (case performers s of
        [] \<Rightarrow> (Some IndexError, s)
      | a # _ \<Rightarrow>
          (None, s\<lparr>store := (store s)(a := (store s a)\<lparr>rotations :=
                                  rotations (store s a) @ [(c, ang)]\<rparr>)\<rparr>))"

definition rotate_playback :: "anim \<Rightarrow> outcome" where
  "rotate_playback s =
     (case inputvalues s of
        PRot ax ang \<Rightarrow>
          (if ax = AxisStr ''x'' then rotate_first s CHR ''x'' ang
           else if ax = AxisStr ''y'' then rotate_first s CHR ''y'' ang
           else if ax = AxisStr ''z'' then rotate_first s CHR ''z'' ang
           else (None, s))
      | _ \<Rightarrow> (Some TypeError, s))"

definition rotate ::
  "anim \<Rightarrow> targets \<Rightarrow> axis \<Rightarrow> real \<Rightarrow> real option \<Rightarrow> real option \<Rightarrow> outcome" where
  "rotate s act ax angle t duration =
     (if bookingMode s then
        book s act t duration (\<lambda>acts t1 duration1 rng s1.
          (let s2 = log_unless_single s1 acts ''in rotate(), can move only one object.''
           in (None, append_events s2
                 (map (\<lambda>tt. (tt, Rotate, acts, PRot ax (angle / real (length rng)))) rng))))
      else rotate_playback s)"

definition scale_playback :: "anim \<Rightarrow> outcome" where
  "scale_playback s =
     (case inputvalues s of
        PNum v \<Rightarrow>
          (None, s\<lparr>store := set_all (\<lambda>obj. obj\<lparr>scales := scales obj @ [v]\<rparr>)
                               (performers s) (store s)\<rparr>)
      | _ \<Rightarrow> (Some TypeError, s))"

definition scale :: "anim \<Rightarrow> targets \<Rightarrow> real \<Rightarrow> real option \<Rightarrow> real option \<Rightarrow> outcome" where
  "scale s acts factor t duration =
     (if bookingMode s then
        book s acts t duration (\<lambda>acts1 t1 duration1 rng s1.
          (None, append_events s1
             (map (\<lambda>tt. (tt, Scale, acts1,
                         PNum (lin_interpolate tt (t1, t1 + duration1) (1, factor)))) rng)))
      else scale_playback s)"



subsection \<open>\<open>play\<close>\<close>

text \<open>
  \<open>action(0, 0)\<close> inside \<open>play\<close>: \<open>play\<close> has cleared \<open>bookingMode\<close> and no playback branch
  sets it, so the call runs the playback branch of the stored method.
\<close>

definition call_action :: "action \<Rightarrow> anim \<Rightarrow> outcome" where
  "call_action act s =
     (case act of
        Fade_in \<Rightarrow> fade_in_playback s
      | Fade_out \<Rightarrow> fade_out_playback s
      | Change_alpha_between \<Rightarrow> change_alpha_between_playback s
      | Change_color \<Rightarrow> change_color_playback s
      | Change_backcolor \<Rightarrow> change_backcolor_playback s
      | Change_to_wireframe \<Rightarrow> wireframe_playback s
      | Change_to_surface \<Rightarrow> wireframe_playback s
      | Change_line_width \<Rightarrow> change_line_width_playback s
      | Change_line_color \<Rightarrow> change_line_color_playback s
      | Change_lighting \<Rightarrow> change_lighting_playback s
      | Move \<Rightarrow> move_playback s
      | Rotate \<Rightarrow> rotate_playback s
      | Scale \<Rightarrow> scale_playback s
      | Mesh_erode \<Rightarrow> (None, s))"

definition show_frame :: "bool \<Rightarrow> anim \<Rightarrow> anim" where
  "show_frame interactive s = s\<lparr>show_calls := show_calls s @ [interactive]\<rparr>"

text \<open>A call on \<open>vd\<close>, made only \<open>if self.video_filename:\<close>.\<close>

definition video_op :: "vop \<Rightarrow> anim \<Rightarrow> anim" where
  "video_op op s =
     (if video_filename s \<noteq> [] then
        (case vd s of
           Some v \<Rightarrow> s\<lparr>vd := Some (v\<lparr>v_ops := v_ops v @ [op]\<rparr>)\<rparr>
         | None \<Rightarrow> s)
      else s)"

definition video_close :: "anim \<Rightarrow> anim" where
  "video_close s =
     (if video_filename s \<noteq> [] then
        (case vd s of
           Some v \<Rightarrow> s\<lparr>vd := Some (v\<lparr>v_closed := True\<rparr>)\<rparr>
         | None \<Rightarrow> s)
      else s)"

definition after_event :: "real \<Rightarrow> real \<Rightarrow> action \<Rightarrow> anim \<Rightarrow> anim" where
  "after_event tt ttlast act s =
     (let dt = tt - ttlast;
          s1 = (if dt > eps s then
                  (let s2 = video_op AddFrame (show_frame False s)
                   in if dt > time_resolution s2 + eps s2 then video_op (Pause dt) s2 else s2)
                else s)
      in if show_progressbar s1
         then s1\<lparr>progress := progress s1
                    @ [(real_of_int (int_of_float (tt * 100)) / 100, act)]\<rparr>
         else s1)"

fun play_loop :: "event list \<Rightarrow> real \<Rightarrow> anim \<Rightarrow> outcome" where
  "play_loop [] ttlast s = (None, s)"
| "play_loop ((tt, act, acts, vals) # es) ttlast s =
     (case call_action act (s\<lparr>performers := acts, inputvalues := vals\<rparr>) of
        (Some e, s1) \<Rightarrow> (Some e, s1)
      | (None, s1) \<Rightarrow> play_loop es tt (after_event tt ttlast act s1))"

text \<open>
  \<open>sorted(self.events, key=lambda x: x[0])\<close> is a stable sort on the scheduled time, as
  \<open>sort_key fst\<close> is. With \<open>total_duration\<close> unset, \<open>self.events[-1]\<close> raises IndexError
  on an empty list. Nothing catches an exception of the loop.
\<close>

definition play :: "anim \<Rightarrow> outcome" where
  "play s =
     (let s1 = s\<lparr>events := sort_key fst (events s), bookingMode := False\<rparr>
      in case (case total_duration s1 of
                 Some d \<Rightarrow> Inr d
               | None \<Rightarrow>
                   (if events s1 = [] then Inl IndexError
                    else Inr (fst (last (events s1)) - fst (hd (events s1))))) of
           Inl e \<Rightarrow> (Some e, s1)
         | Inr d \<Rightarrow>
             (let s2 = s1\<lparr>total_duration := Some d\<rparr>;
                  s3 = (if video_filename s2 \<noteq> [] then
                          s2\<lparr>vd := Some \<lparr>v_name = video_filename s2, v_fps = video_fps s2,
                                         v_duration = d, v_ops = [], v_closed = False\<rparr>\<rparr>
                        else s2)
              in case play_loop (events s3) 0 s3 of
                   (Some e, s4) \<Rightarrow> (Some e, s4)
                 | (None, s4) \<Rightarrow>
                     (let s5 = video_close (video_op AddFrame (show_frame False s4));
                          s6 = show_frame True s5
                      in (None, s6\<lparr>bookingMode := True\<rparr>))))"

subsection \<open>A concrete scene\<close>

text \<open>
  An opaque object with alpha 1 at every reference, and \<open>Animation()\<close> with the default
  arguments of \<open>__init__\<close>.
\<close>

definition scene_object :: vobject where
  "scene_object =
     \<lparr> has_alpha = True, alpha = 1, color = (0, 0, 0), backColor = None, wireframe = False,
       lw = 1, linecolor = (0, 0, 0), ambient = 0, diffuse = 1, specular = 0,
       specular_power = 1, pos = (0, 0, 0), rotations = [], scales = [],
       diagonal_size = 1, bounds = (0, 1, 0, 1, 0, 1), corner_dist = (\<lambda>_. 0),
       ids_within = (\<lambda>_ _. []), npoints = 0 \<rparr>"

definition fresh :: anim where
  "fresh = init None (2 / 100) True ''animation.mp4'' 12 (\<lambda>_. scene_object)"

section \<open>Playing an empty Event list\<close>

text \<open>
  C1. The claim: \<open>play()\<close> with zero booked Events does not fail, renders one frame and
  produces a minimal video. The code: on an Animation whose \<open>total_duration\<close> was left at
  its default \<open>None\<close>, \<open>play\<close> evaluates \<open>self.events[-1][0]\<close> on the empty list and
  raises IndexError, before any frame is shown and before the video is opened; this
  holds for every time resolution, file name and frame rate.
\<close>

theorem play_without_events_raises:
  "play (init None res pb fname fps st)
     = (Some IndexError, (init None res pb fname fps st)\<lparr>bookingMode := False\<rparr>)"
  by (simp add: play_def init_def)

text \<open>
  The sibling path: with \<open>total_duration\<close> configured the same call returns normally,
  after one non-interactive \<open>show\<close>, one video frame, the closing of the video and the
  final interactive \<open>show\<close>.
\<close>

lemma play_without_events_configured:
  "fname \<noteq> [] \<Longrightarrow> play (init (Some d) res pb fname fps st)
     = (None, (init (Some d) res pb fname fps st)
                \<lparr>show_calls := [False, True],
                 vd := Some \<lparr>v_name = fname, v_fps = fps, v_duration = d,
                             v_ops = [AddFrame], v_closed = True\<rparr>\<rparr>)"
  by (simp add: play_def init_def show_frame_def video_op_def video_close_def)

section \<open>An unknown lighting style\<close>

text \<open>
  C6. The claim: \<open>change_lighting\<close> with an unrecognized style logs the error and
  proceeds to completion with a default parameter set. The code:
  \<open>Animation().change_lighting("foo", obj, t=0, duration=0)\<close> logs the error and then
  raises UnboundLocalError at \<open>pars[0]\<close>; no Event is booked.
\<close>

theorem change_lighting_unknown_style_raises:
  "change_lighting fresh ''foo'' (OneObj 0) (Some 0) (Some 0)
     = (Some UnboundLocalError,
        fresh\<lparr>lastT := Some 0, lastDuration := Some 0, lastActs := Some [0], objects := [0],
              logged := [''Unknown lighting style foo'']\<rparr>)"
  by (simp add: change_lighting_def book_def parse_def fresh_def init_def default_float_def
      resolve_objs_def int_of_float_def linspace_def lighting_pars_def)

section \<open>Auxiliary facts about booking and the alpha loops\<close>

lemma parse_events: "events (snd (parse s objs t duration)) = events s"
  by (simp add: parse_def Let_def split: option.splits sum.splits)

lemma book_success:
  "fst (parse s acts t duration) = Inr (acts1, t1, d1, rng) \<Longrightarrow>
   book s acts t duration body = body acts1 t1 d1 rng (snd (parse s acts t duration))"
  by (cases "parse s acts t duration") (simp add: book_def)

lemma fade_in_loop_at:
  "fade_in_loop v ps st a =
     (if a \<in> set ps \<and> has_alpha (st a) \<and> alpha (st a) < v then (st a)\<lparr>alpha := v\<rparr> else st a)"
  by (induction ps arbitrary: st) (auto simp: not_le)

lemma fade_out_loop_ok_at:
  "fade_out_loop v ps st = (None, st') \<Longrightarrow>
   st' a = (if a \<in> set ps \<and> v < alpha (st a) then (st a)\<lparr>alpha := v\<rparr> else st a)"
  by (induction ps arbitrary: st) (auto simp: not_le split: if_splits)

lemma fade_out_loop_le:
  "alpha (snd (fade_out_loop v ps st) a) \<le> alpha (st a)"
proof (induction ps arbitrary: st)
  case Nil
  show ?case by simp
next
  case (Cons p ps)
  show ?case
  proof (cases "has_alpha (st p)")
    case False
    then show ?thesis by simp
  next
    case True
    let ?st1 = "if alpha (st p) \<le> v then st else st(p := (st p)\<lparr>alpha := v\<rparr>)"
    have "alpha (snd (fade_out_loop v ps ?st1) a) \<le> alpha (?st1 a)" by (rule Cons.IH)
    moreover have "alpha (?st1 a) \<le> alpha (st a)" by auto
    ultimately show ?thesis using True by simp
  qed
qed

lemma fade_out_playback_le:
  "alpha (store (snd (fade_out_playback s)) a) \<le> alpha (store s a)"
  by (cases "inputvalues s") (simp_all add: fade_out_playback_def with_store_def fade_out_loop_le)

section \<open>Rotation payloads and the axis test of playback\<close>



section \<open>The skip rules of the alpha transitions\<close>

text \<open>
  C10. In playback \<open>fade_in\<close> gives the payload to exactly the performers that have an
  alpha strictly below it, so no alpha decreases; \<open>fade_out\<close>, when it returns, gives
  the payload to exactly the performers whose alpha is strictly above it, and in every
  case no alpha increases. \<open>change_alpha_between\<close> books its samples with \<open>fade_out\<close> as
  the action, so replaying them follows the rule of \<open>fade_out\<close> and never raises an
  alpha.
\<close>

theorem alpha_playback_skip_rules:
  assumes "inputvalues s = PNum v"
    and "bookingMode b"
    and "fst (parse b acts t duration) = Inr (acts1, t1, d1, rng)"
  shows "call_action Fade_in s
           = (None, s\<lparr>store := (\<lambda>a. if a \<in> set (performers s) \<and> has_alpha (store s a)
                                          \<and> alpha (store s a) < v
                                     then (store s a)\<lparr>alpha := v\<rparr> else store s a)\<rparr>)
       \<and> alpha (store s a) \<le> alpha (store (snd (call_action Fade_in s)) a)
       \<and> (fst (call_action Fade_out s) = None \<longrightarrow>
            store (snd (call_action Fade_out s))
              = (\<lambda>a. if a \<in> set (performers s) \<and> v < alpha (store s a)
                     then (store s a)\<lparr>alpha := v\<rparr> else store s a))
       \<and> alpha (store (snd (call_action Fade_out s)) a) \<le> alpha (store s a)
       \<and> events (snd (change_alpha_between b alpha1 alpha2 acts t duration))
           = events b @ map (\<lambda>tt. (tt, Fade_out, acts1,
                                    PNum (lin_interpolate tt (t1, t1 + d1) (alpha1, alpha2)))) rng"
proof -
  have in_eq: "call_action Fade_in s
           = (None, s\<lparr>store := (\<lambda>a. if a \<in> set (performers s) \<and> has_alpha (store s a)
                                          \<and> alpha (store s a) < v
                                     then (store s a)\<lparr>alpha := v\<rparr> else store s a)\<rparr>)"
    using assms(1)
    by (simp add: call_action_def fade_in_playback_def fade_in_loop_at fun_eq_iff)
  have in_le: "alpha (store s a) \<le> alpha (store (snd (call_action Fade_in s)) a)"
    by (simp add: in_eq)
  have out_eq: "fst (call_action Fade_out s) = None \<longrightarrow>
            store (snd (call_action Fade_out s))
              = (\<lambda>a. if a \<in> set (performers s) \<and> v < alpha (store s a)
                     then (store s a)\<lparr>alpha := v\<rparr> else store s a)"
  proof
    assume ok: "fst (call_action Fade_out s) = None"
    obtain r st' where l: "fade_out_loop v (performers s) (store s) = (r, st')"
      by (cases "fade_out_loop v (performers s) (store s)")
    have "r = None" using ok l assms(1)
      by (simp add: call_action_def fade_out_playback_def with_store_def)
    then have "\<And>a. st' a = (if a \<in> set (performers s) \<and> v < alpha (store s a)
                     then (store s a)\<lparr>alpha := v\<rparr> else store s a)"
      using l fade_out_loop_ok_at by blast
    then show "store (snd (call_action Fade_out s))
              = (\<lambda>a. if a \<in> set (performers s) \<and> v < alpha (store s a)
                     then (store s a)\<lparr>alpha := v\<rparr> else store s a)"
      using l assms(1)
      by (simp add: call_action_def fade_out_playback_def with_store_def fun_eq_iff)
  qed
  have out_le: "alpha (store (snd (call_action Fade_out s)) a) \<le> alpha (store s a)"
    by (simp add: call_action_def fade_out_playback_le)
  have book: "events (snd (change_alpha_between b alpha1 alpha2 acts t duration))
           = events b @ map (\<lambda>tt. (tt, Fade_out, acts1,
                                    PNum (lin_interpolate tt (t1, t1 + d1) (alpha1, alpha2)))) rng"
    using assms(2,3)
    by (simp add: change_alpha_between_def book_success append_events_def parse_events)
  show ?thesis using in_eq in_le out_eq out_le book by blast
qed

theorem alpha_playback_skip_rules_witness:
  "inputvalues (fresh\<lparr>performers := [0], inputvalues := PNum (1 / 2)\<rparr>) = PNum (1 / 2)
   \<and> bookingMode fresh
   \<and> fst (parse fresh (OneObj 0) (Some 0) (Some (2 / 100))) = Inr ([0], 0, 2 / 100, [0, 2 / 100])
   \<and> alpha (store (snd (call_action Fade_in
        (fresh\<lparr>performers := [0], inputvalues := PNum (1 / 2)\<rparr>))) 0) = 1
   \<and> fst (call_action Fade_out (fresh\<lparr>performers := [0], inputvalues := PNum (1 / 2)\<rparr>)) = None
   \<and> alpha (store (snd (call_action Fade_out
        (fresh\<lparr>performers := [0], inputvalues := PNum (1 / 2)\<rparr>))) 0) = 1 / 2
   \<and> events (snd (change_alpha_between fresh 0 1 (OneObj 0) (Some 0) (Some (2 / 100))))
       = [(0, Fade_out, [0], PNum 0), (2 / 100, Fade_out, [0], PNum 1)]"
proof -
  let ?s = "fresh\<lparr>performers := [0], inputvalues := PNum (1 / 2)\<rparr>"
  have i: "inputvalues ?s = PNum (1 / 2)" by simp
  have b: "bookingMode fresh" by (simp add: fresh_def init_def)
  have p: "fst (parse fresh (OneObj 0) (Some 0) (Some (2 / 100)))
             = Inr ([0], 0, 2 / 100, [0, 2 / 100])"
    by (simp add: parse_def fresh_def init_def default_float_def resolve_objs_def
        int_of_float_def linspace_def upt_rec Let_def)
  have ok: "fst (call_action Fade_out ?s) = None"
    by (simp add: call_action_def fade_out_playback_def with_store_def fresh_def init_def
        scene_object_def)
  have e: "events fresh = []" by (simp add: fresh_def init_def)
  have o: "alpha (store fresh 0) = 1" "has_alpha (store fresh 0)" "performers ?s = [0]"
    by (simp_all add: fresh_def init_def scene_object_def)
  show ?thesis
    using i b p ok e o
      alpha_playback_skip_rules [OF i b p, where a = 0 and ?alpha1.0 = 0 and ?alpha2.0 = 1]
    by (simp add: lin_interpolate_def)
qed

section \<open>Auxiliary facts about \<open>_parse\<close>\<close>


lemma int_of_float_half: "0 \<le> k \<Longrightarrow> int_of_float (real_of_int k + 1 / 2) = k"
proof -
  assume "0 \<le> k"
  then have "int_of_float (real_of_int k + 1 / 2) = \<lfloor>real_of_int k + 1 / 2\<rfloor>"
    by (simp add: int_of_float_def)
  also have "\<dots> = k" by (rule floor_unique) simp_all
  finally show ?thesis .
qed

lemma linspace_steps:
  assumes "0 \<le> n"
  shows "linspace t (t + real_of_int n * R) (n + 1)
           = Inr (map (\<lambda>i. t + real i * R) [0..<nat n + 1])"
proof (cases "n = 0")
  case True
  then show ?thesis by (simp add: linspace_def)
next
  case False
  then have pos: "0 < n" using assms by simp
  then have "nat (n + 1) = nat n + 1" by simp
  then show ?thesis using pos by (simp add: linspace_def)
qed

lemma set_add_objects: "set (add_objects os as) = set os \<union> set as"
  by (induction as arbitrary: os) auto

lemma add_objects_known: "set as \<subseteq> set os \<Longrightarrow> add_objects os as = os"
  by (induction as arbitrary: os) auto

lemma add_objects_twice: "add_objects (add_objects os as) as = add_objects os as"
  by (rule add_objects_known) (simp add: set_add_objects)

lemma parse_shape:
  assumes "fst (parse s objs t duration) = Inr (acts, t1, d1, rng)"
  shows "time_resolution s \<noteq> 0
       \<and> resolve_objs objs (lastActs s) = Some acts
       \<and> t1 = real_of_int (int_of_float (default_float t (lastT s) / time_resolution s + 1 / 2))
                * time_resolution s
       \<and> d1 = real_of_int (int_of_float (default_float duration (lastDuration s)
                                            / time_resolution s + 1 / 2))
                * time_resolution s
       \<and> linspace t1 (t1 + d1)
           (int_of_float (default_float duration (lastDuration s) / time_resolution s + 1 / 2) + 1)
           = Inr rng
       \<and> snd (parse s objs t duration)
           = s\<lparr>lastT := Some t1, lastDuration := Some d1, lastActs := Some acts,
               objects := add_objects (objects s) acts\<rparr>"
  using assms
  by (auto simp: parse_def Let_def split: option.splits sum.splits if_splits)


section \<open>Quantization of the duration\<close>



section \<open>The Events of a \<open>fade_in\<close> booking\<close>









section \<open>Declarations that omit the time and the targets\<close>

lemma default_float_prev: "default_float None (Some v) = v"
  by (simp add: default_float_def)

lemma resolve_objs_prev: "acts \<noteq> [] \<Longrightarrow> resolve_objs NoObjs (Some acts) = Some acts"
  by (cases acts) (simp_all add: resolve_objs_def)

lemma parse_again:
  assumes R: "0 < time_resolution s"
    and p: "fst (parse s objs t duration) = Inr (acts, t1, d1, rng)"
    and acts: "acts \<noteq> []" and t1: "0 \<le> t1" and d1: "0 \<le> d1"
  shows "parse (snd (parse s objs t duration)) NoObjs None None
           = (Inr (acts, t1, d1, rng), snd (parse s objs t duration))"
    and "hd rng = t1" and "last rng = t1 + d1"
proof -
  let ?R = "time_resolution s"
  define k where "k = int_of_float (default_float t (lastT s) / ?R + 1 / 2)"
  define n where "n = int_of_float (default_float duration (lastDuration s) / ?R + 1 / 2)"
  define s1 where "s1 = snd (parse s objs t duration)"
  have sh: "t1 = real_of_int k * ?R" "d1 = real_of_int n * ?R"
    "linspace t1 (t1 + d1) (n + 1) = Inr rng"
    "s1 = s\<lparr>lastT := Some t1, lastDuration := Some d1, lastActs := Some acts,
              objects := add_objects (objects s) acts\<rparr>"
    using parse_shape[OF p] unfolding k_def n_def s1_def by blast+
  have k0: "0 \<le> k" using t1 R sh(1) by (simp add: zero_le_mult_iff)
  have n0: "0 \<le> n" using d1 R sh(2) by (simp add: zero_le_mult_iff)
  have tq: "t1 / ?R = real_of_int k" using R sh(1) by simp
  have dq: "d1 / ?R = real_of_int n" using R sh(2) by simp
  have kq: "int_of_float (t1 / ?R + 1 / 2) = k" by (simp only: tq int_of_float_half[OF k0])
  have nq: "int_of_float (d1 / ?R + 1 / 2) = n" by (simp only: dq int_of_float_half[OF n0])
  have f: "lastT s1 = Some t1" "lastDuration s1 = Some d1" "lastActs s1 = Some acts"
    "time_resolution s1 = ?R" "objects s1 = add_objects (objects s) acts"
    by (simp_all add: sh(4))
  have st: "s1\<lparr>lastT := Some t1, lastDuration := Some d1, lastActs := Some acts,
              objects := add_objects (objects s) acts\<rparr> = s1"
    by (simp add: sh(4))
  have R0: "?R \<noteq> 0" using R by simp
  have "parse s1 NoObjs None None = (Inr (acts, t1, d1, rng), s1)"
    unfolding parse_def
    by (simp only: f default_float_prev resolve_objs_prev[OF acts] Let_def option.case
        R0 if_False kq nq sh(1)[symmetric] sh(2)[symmetric] sh(3) sum.case
        add_objects_twice st)
  then show "parse (snd (parse s objs t duration)) NoObjs None None
           = (Inr (acts, t1, d1, rng), snd (parse s objs t duration))"
    by (simp only: s1_def)
  have "linspace t1 (t1 + d1) (n + 1) = Inr (map (\<lambda>i. t1 + real i * ?R) [0..<nat n + 1])"
    unfolding sh(2) by (rule linspace_steps[OF n0])
  then have r: "rng = map (\<lambda>i. t1 + real i * ?R) [0..<nat n + 1]" using sh(3) by simp
  show "hd rng = t1" by (simp add: r hd_map upt_rec[of 0])
  have "last rng = t1 + real (nat n) * ?R" by (simp add: r last_map)
  then show "last rng = t1 + d1" using n0 sh(2) by simp
qed

lemma parse_bookingMode: "bookingMode (snd (parse s objs t duration)) = bookingMode s"
  by (simp add: parse_def Let_def split: option.splits sum.splits)


text \<open>
  C2. The claim: after \<open>fade_in(obj, t=0, duration=2)\<close>, a \<open>change_color("red")\<close> with no
  time and no targets is booked from \<open>t = 2\<close>, the end of the previous call. The code:
  \<open>_parse\<close> stores the quantized start of the call in \<open>_lastT\<close>, not its end, so the
  first Event of the colour change (the Event after the 101 Events of the fade) is
  scheduled at 0.
\<close>

theorem change_color_after_fade_in_counterexample:
  "length (events (snd (fade_in fresh (OneObj 0) (Some 0) (Some 2)))) = 101
   \<and> fst (snd (events (snd (change_color (snd (fade_in fresh (OneObj 0) (Some 0) (Some 2)))
                               (1, 0, 0) NoObjs None None)) ! 101)) = Change_color
   \<and> fst (events (snd (change_color (snd (fade_in fresh (OneObj 0) (Some 0) (Some 2)))
                         (1, 0, 0) NoObjs None None)) ! 101) = 0
   \<and> fst (events (snd (change_color (snd (fade_in fresh (OneObj 0) (Some 0) (Some 2)))
                         (1, 0, 0) NoObjs None None)) ! 101) \<noteq> 2"
  by code_simp


text \<open>
  C2, as amended. When the preceding declaration has parsed to targets \<open>acts\<close> (not
  empty), start \<open>t1 \<ge> 0\<close>, duration \<open>d1 \<ge> 0\<close> and samples \<open>rng\<close>, a declaration that
  omits time, duration and targets parses to the same \<open>acts\<close>, \<open>t1\<close>, \<open>d1\<close> and \<open>rng\<close>
  and leaves the state as it is: it starts at the start of the preceding declaration
  and lasts as long. So \<open>change_color\<close> books one Event per sample of the preceding
  call, on the same targets, the first at \<open>t1\<close> and the last at \<open>t1 + d1\<close>.
\<close>

theorem omitted_arguments_reuse_previous_start:
  assumes "bookingMode s" and "0 < time_resolution s"
    and "fst (parse s objs t duration) = Inr (acts, t1, d1, rng)"
    and "acts \<noteq> []" and "0 \<le> t1" and "0 \<le> d1"
    and "s1 = snd (parse s objs t duration)"
  shows "parse s1 NoObjs None None = (Inr (acts, t1, d1, rng), s1)
       \<and> change_color s1 col NoObjs None None
           = (None, append_events s1
                (map (\<lambda>tt. (tt, Change_color, acts,
                            PColors (map (\<lambda>a. interp_rgb tt t1 d1 (color (store s1 a)) col)
                                       acts))) rng))
       \<and> hd rng = t1 \<and> last rng = t1 + d1"
proof -
  note again = parse_again[OF assms(2,3,4,5,6)]
  have p: "parse s1 NoObjs None None = (Inr (acts, t1, d1, rng), s1)"
    using again(1) by (simp only: assms(7))
  have b: "bookingMode s1" using assms(1) by (simp only: assms(7) parse_bookingMode)
  have c: "change_color s1 col NoObjs None None
           = (None, append_events s1
                (map (\<lambda>tt. (tt, Change_color, acts,
                            PColors (map (\<lambda>a. interp_rgb tt t1 d1 (color (store s1 a)) col)
                                       acts))) rng))"
    by (simp only: change_color_def book_def b if_True p prod.case sum.case)
  show ?thesis using p c again(2,3) by (intro conjI)
qed

theorem omitted_arguments_reuse_previous_start_witness:
  "bookingMode fresh \<and> 0 < time_resolution fresh
   \<and> fst (parse fresh (OneObj 0) (Some 0) (Some 2))
       = Inr ([0], 0, 2, map (\<lambda>i. real i * (2 / 100)) [0..<101])
   \<and> [0::nat] \<noteq> [] \<and> (0::real) \<le> 0 \<and> (0::real) \<le> 2
   \<and> parse (snd (parse fresh (OneObj 0) (Some 0) (Some 2))) NoObjs None None
       = (Inr ([0], 0, 2, map (\<lambda>i. real i * (2 / 100)) [0..<101]),
          snd (parse fresh (OneObj 0) (Some 0) (Some 2)))
   \<and> hd (map (\<lambda>i. real i * (2 / 100)) [0..<101]) = 0
   \<and> last (map (\<lambda>i. real i * (2 / 100)) [0..<101]) = 0 + 2"
proof -
  have b: "bookingMode fresh" by (simp add: fresh_def init_def)
  have R: "0 < time_resolution fresh" by (simp add: fresh_def init_def)
  have p: "fst (parse fresh (OneObj 0) (Some 0) (Some 2))
             = Inr ([0], 0, 2, map (\<lambda>i. real i * (2 / 100)) [0..<101])"
    by code_simp
  have a: "[0::nat] \<noteq> []" by simp
  have t: "(0::real) \<le> 0" by simp
  have d: "(0::real) \<le> 2" by simp
  note T = omitted_arguments_reuse_previous_start [OF b R p a t d refl, of "(1, 0, 0)"]
  show ?thesis
    using b R p a t d T[THEN conjunct1] T[THEN conjunct2, THEN conjunct2, THEN conjunct1]
      T[THEN conjunct2, THEN conjunct2, THEN conjunct2]
    by (intro conjI)
qed

section \<open>Single-object transitions given several targets\<close>







section \<open>The video writer across \<open>play\<close>\<close>

lemma call_action_frame:
  "snd (call_action a s) = s\<lparr>store := store (snd (call_action a s))\<rparr>"
  by (cases a)
    (simp_all add: call_action_def fade_in_playback_def fade_out_playback_def
      change_alpha_between_playback_def change_color_playback_def
      change_backcolor_playback_def wireframe_playback_def change_line_width_playback_def
      change_line_color_playback_def change_lighting_playback_def move_playback_def
      rotate_playback_def rotate_first_def scale_playback_def with_store_def
      split: payload.split list.split)

lemma call_action_video:
  "video_filename (snd (call_action a s)) = video_filename s"
  "vd (snd (call_action a s)) = vd s"
proof -
  have "video_filename (s\<lparr>store := st\<rparr>) = video_filename s \<and> vd (s\<lparr>store := st\<rparr>) = vd s" for st
    by simp
  then show "video_filename (snd (call_action a s)) = video_filename s"
    "vd (snd (call_action a s)) = vd s"
    using call_action_frame[of a s] by metis+
qed

lemma after_event_video:
  assumes "video_filename s = fn" and "vd s = Some v" and "v_name v = fn"
  shows "video_filename (after_event tt ttlast act s) = fn
       \<and> (\<exists>w. vd (after_event tt ttlast act s) = Some w \<and> v_name w = fn)"
  using assms
  by (auto simp: after_event_def Let_def video_op_def show_frame_def)

lemma play_loop_video:
  "video_filename s = fn \<Longrightarrow> vd s = Some v \<Longrightarrow> v_name v = fn \<Longrightarrow>
   video_filename (snd (play_loop es ttlast s)) = fn
   \<and> (\<exists>w. vd (snd (play_loop es ttlast s)) = Some w \<and> v_name w = fn)"
proof (induction es arbitrary: ttlast s v)
  case Nil
  then show ?case by simp
next
  case (Cons e es)
  obtain tt act acts vals where e: "e = (tt, act, acts, vals)" by (cases e) auto
  let ?s0 = "s\<lparr>performers := acts, inputvalues := vals\<rparr>"
  obtain r s1 where c: "call_action act ?s0 = (r, s1)" by (cases "call_action act ?s0")
  have f1: "video_filename s1 = fn" using call_action_video(1)[of act ?s0] c Cons.prems by simp
  have v1: "vd s1 = Some v" using call_action_video(2)[of act ?s0] c Cons.prems by simp
  show ?case
  proof (cases r)
    case None
    obtain w where w: "video_filename (after_event tt ttlast act s1) = fn"
      "vd (after_event tt ttlast act s1) = Some w" "v_name w = fn"
      using after_event_video[OF f1 v1 Cons.prems(3)] by blast
    have "video_filename (snd (play_loop es tt (after_event tt ttlast act s1))) = fn
       \<and> (\<exists>w. vd (snd (play_loop es tt (after_event tt ttlast act s1))) = Some w \<and> v_name w = fn)"
      by (rule Cons.IH[OF w])
    then show ?thesis using None c e by simp
  next
    case (Some err)
    then show ?thesis using c e f1 v1 Cons.prems(3) by simp
  qed
qed


text \<open>
  C7. The claim: \<open>play\<close> closes the video on every exit path, an exception raised
  inside the loop included. The code has no protected region around the loop:
  after \<open>rotate([], axis="x", angle=90, t=0, duration=0)\<close>, which books one Event
  without a target, \<open>play\<close> opens the video, raises IndexError at
  \<open>self._performers[0]\<close> and leaves the video open, with \<open>bookingMode\<close> still off.
\<close>

theorem play_leaves_video_open_counterexample:
  "play (snd (rotate fresh (ObjList []) (AxisStr ''x'') 90 (Some 0) (Some 0)))
     = (Some IndexError,
        fresh\<lparr>events := [(0, Rotate, [], PRot (AxisStr ''x'') 90)],
              total_duration := Some 0, bookingMode := False,
              inputvalues := PRot (AxisStr ''x'') 90, performers := [],
              lastT := Some 0, lastDuration := Some 0, lastActs := Some [],
              logged := [''in rotate(), can move only one object.''],
              vd := Some \<lparr>v_name = ''animation.mp4'', v_fps = 12, v_duration = 0,
                          v_ops = [], v_closed = False\<rparr>\<rparr>)"
  by (simp add: play_def rotate_def book_def parse_def fresh_def init_def default_float_def
      resolve_objs_def int_of_float_def linspace_def Let_def append_events_def
      log_unless_single_def call_action_def rotate_playback_def rotate_first_def)


text \<open>
  C7, as amended. Whenever \<open>play\<close> returns normally and a video file name is set, the
  video that was opened under that name has received a last frame and is closed. This
  covers the empty Event list when \<open>total_duration\<close> is configured; an exception leaves
  \<open>play\<close> without the closing call.
\<close>

theorem play_closes_video_on_normal_return:
  assumes "fst (play s) = None" and "video_filename s \<noteq> []"
  shows "\<exists>v. vd (snd (play s)) = Some v \<and> v_closed v \<and> v_name v = video_filename s
           \<and> v_ops v \<noteq> [] \<and> last (v_ops v) = AddFrame"
proof -
  let ?fn = "video_filename s"
  let ?s1 = "s\<lparr>events := sort_key fst (events s), bookingMode := False\<rparr>"
  let ?dur = "case total_duration ?s1 of
                 Some d \<Rightarrow> Inr d
               | None \<Rightarrow>
                   (if events ?s1 = [] then Inl IndexError
                    else Inr (fst (last (events ?s1)) - fst (hd (events ?s1))))"
  obtain d where d: "?dur = Inr d"
    using assms(1) by (cases ?dur) (simp_all add: play_def Let_def)
  let ?s3 = "?s1\<lparr>total_duration := Some d,
                  vd := Some \<lparr>v_name = ?fn, v_fps = video_fps s, v_duration = d,
                              v_ops = [], v_closed = False\<rparr>\<rparr>"
  obtain r s4 where l: "play_loop (events ?s3) 0 ?s3 = (r, s4)"
    by (cases "play_loop (events ?s3) 0 ?s3")
  have pl: "play s = (case r of
                        Some e \<Rightarrow> (Some e, s4)
                      | None \<Rightarrow> (None, (show_frame True
                            (video_close (video_op AddFrame (show_frame False s4))))
                              \<lparr>bookingMode := True\<rparr>))"
    using d l assms(2) by (simp add: play_def Let_def split: option.splits)
  have r: "r = None" using assms(1) pl by (cases r) simp_all
  have "video_filename (snd (play_loop (events ?s3) 0 ?s3)) = ?fn
       \<and> (\<exists>w. vd (snd (play_loop (events ?s3) 0 ?s3)) = Some w \<and> v_name w = ?fn)"
  proof (rule play_loop_video)
    show "video_filename ?s3 = ?fn" by simp
    show "vd ?s3 = Some \<lparr>v_name = ?fn, v_fps = video_fps s, v_duration = d,
                              v_ops = [], v_closed = False\<rparr>" by simp
    show "v_name \<lparr>v_name = ?fn, v_fps = video_fps s, v_duration = d,
                              v_ops = [], v_closed = False\<rparr> = ?fn" by simp
  qed
  then obtain w where w: "video_filename s4 = ?fn" "vd s4 = Some w" "v_name w = ?fn"
    using l by auto
  have "vd (snd (play s)) = Some (w\<lparr>v_ops := v_ops w @ [AddFrame], v_closed := True\<rparr>)"
    using w assms(2) by (simp add: pl r show_frame_def video_op_def video_close_def)
  then show ?thesis using w(3) by simp
qed


theorem play_closes_video_on_normal_return_witness:
  "fst (play (snd (fade_out fresh (OneObj 0) (Some 0) (Some (4 / 100))))) = None
   \<and> video_filename (snd (fade_out fresh (OneObj 0) (Some 0) (Some (4 / 100)))) \<noteq> []
   \<and> vd (snd (play (snd (fade_out fresh (OneObj 0) (Some 0) (Some (4 / 100))))))
       = Some \<lparr>v_name = ''animation.mp4'', v_fps = 12, v_duration = 4 / 100,
                v_ops = [AddFrame, AddFrame, AddFrame], v_closed = True\<rparr>
   \<and> alpha (store (snd (play (snd (fade_out fresh (OneObj 0) (Some 0) (Some (4 / 100)))))) 0) = 0"
proof -
  let ?s = "snd (fade_out fresh (OneObj 0) (Some 0) (Some (4 / 100)))"
  have s: "?s = fresh\<lparr>events := [(0, Fade_out, [0], PNum 1), (2 / 100, Fade_out, [0], PNum (1 / 2)),
                                  (4 / 100, Fade_out, [0], PNum 0)],
                      lastT := Some 0, lastDuration := Some (4 / 100), lastActs := Some [0],
                      objects := [0]\<rparr>"
    by (simp add: fade_out_def book_def parse_def fresh_def init_def default_float_def
      resolve_objs_def int_of_float_def linspace_def Let_def append_events_def
      lin_interpolate_def upt_rec)
  have ok: "fst (play ?s) = None"
    unfolding s
    by (simp add: play_def fresh_def init_def Let_def call_action_def fade_out_playback_def
        with_store_def after_event_def show_frame_def video_op_def video_close_def
        scene_object_def int_of_float_def)
  have fn: "video_filename ?s \<noteq> []" unfolding s by (simp add: fresh_def init_def)
  have v: "vd (snd (play ?s))
       = Some \<lparr>v_name = ''animation.mp4'', v_fps = 12, v_duration = 4 / 100,
                v_ops = [AddFrame, AddFrame, AddFrame], v_closed = True\<rparr>"
    unfolding s
    by (simp add: play_def fresh_def init_def Let_def call_action_def fade_out_playback_def
        with_store_def after_event_def show_frame_def video_op_def video_close_def
        scene_object_def int_of_float_def)
  have a: "alpha (store (snd (play ?s)) 0) = 0"
    unfolding s
    by (simp add: play_def fresh_def init_def Let_def call_action_def fade_out_playback_def
        with_store_def after_event_def show_frame_def video_op_def video_close_def
        scene_object_def int_of_float_def)
  show ?thesis
    using ok fn v a play_closes_video_on_normal_return [OF ok fn]
    by (intro conjI)
qed

section \<open>Sorting before replay\<close>
















end
